theory Spec2Isabelle
  imports Main
begin

section \<open>go-callvis: the process started by main.go\<close>

text \<open>
  The source is one file, main.go: the flag declarations, \<open>outputDot\<close> (one run of the
  pipeline), \<open>ginServer\<close> (the HTTP control loop with its two handlers) and \<open>main\<close>.
  The goroutines of the process are modelled by a step function on a process state:
  every step is one goroutine doing its next piece of work, and a list of events is one
  interleaving. A step of \<open>main\<close> is one of its statements that touch shared state; the
  body of a handler is one step, and so is a run of \<open>outputDot\<close>. What the operating
  system decides (whether the port can be bound, whether a file can be written, whether
  the layout engine runs) is an input of the step that asks for it.

  \<open>handleServer\<close>, \<open>parseHTTPAddr\<close> and \<open>openBrowser\<close> are not called from \<open>main\<close>
  or \<open>ginServer\<close> and are left out, like the request log that \<open>gin.Default()\<close>
  writes.
\<close>

subsection \<open>Flags (main.go, lines 34-62)\<close>

text \<open>
  A \<open>float64\<close> flag is kept as the number its text denotes: the pair \<open>(m, d)\<close> stands
  for \<open>m / 10^d\<close>, so \<open>0.35\<close> is \<open>(35, 2)\<close>; the flag package also reads the texts for
  the infinities (\<open>Infinity True\<close> is the negative one) and for not-a-number. The
  program never computes with the value.
\<close>

type_synonym decimal = "int \<times> nat"

datatype float_value = Finite decimal | Infinity bool | Not_a_number

record flags =
  focusFlag :: string
  groupFlag :: string
  limitFlag :: string
  ignoreFlag :: string
  includeFlag :: string
  nostdFlag :: bool
  nointerFlag :: bool
  testFlag :: bool
  graphvizFlag :: bool
  httpFlag :: string
  skipBrowser :: bool
  outputFile :: string
  outputFormat :: string
  cacheDir :: string
  debugFlag :: bool
  versionFlag :: bool
  tags :: "string list"
  minlen :: nat
  nodesep :: float_value
  nodeshape :: string
  nodestyle :: string
  rankdir :: string

text \<open>The default of every flag, as its declaration gives it.\<close>

definition flag_defaults :: flags where
  "flag_defaults =
     \<lparr> focusFlag = ''main'',
       groupFlag = ''pkg'',
       limitFlag = '''',
       ignoreFlag = '''',
       includeFlag = '''',
       nostdFlag = True,
       nointerFlag = True,
       testFlag = False,
       graphvizFlag = False,
       httpFlag = '':7878'',
       skipBrowser = False,
       outputFile = '''',
       outputFormat = ''svg'',
       cacheDir = '''',
       debugFlag = True,
       versionFlag = False,
       tags = [],
       minlen = 2,
       nodesep = Finite (35, 2),
       nodeshape = ''box'',
       nodestyle = ''filled,rounded'',
       rankdir = ''LR'' \<rparr>"

text \<open>
  One argument of the command line that starts with a dash, as the flag package reads
  it: a declared flag with the value its text denotes; \<open>-h\<close> or \<open>-help\<close>, which no
  declaration of main.go defines; or an argument the flag package rejects for its form
  (a flag that is not declared, a missing value, a text that is not a boolean or not a
  number), kept as its text.
\<close>

datatype flag_setting =
    Set_focus string
  | Set_group string
  | Set_limit string
  | Set_ignore string
  | Set_include string
  | Set_nostd bool
  | Set_nointer bool
  | Set_tests bool
  | Set_graphviz bool
  | Set_http string
  | Set_skipbrowser bool
  | Set_file string
  | Set_format string
  | Set_cacheDir string
  | Set_debug bool
  | Set_version bool
  | Set_tags "string list"
  | Set_minlen nat
  | Set_nodesep float_value
  | Set_nodeshape string
  | Set_nodestyle string
  | Set_rankdir string
  | Flag_help
  | Flag_rejected string

fun flag_set :: "flags \<Rightarrow> flag_setting \<Rightarrow> flags" where
  "flag_set f (Set_focus v) = f\<lparr>focusFlag := v\<rparr>"
| "flag_set f (Set_group v) = f\<lparr>groupFlag := v\<rparr>"
| "flag_set f (Set_limit v) = f\<lparr>limitFlag := v\<rparr>"
| "flag_set f (Set_ignore v) = f\<lparr>ignoreFlag := v\<rparr>"
| "flag_set f (Set_include v) = f\<lparr>includeFlag := v\<rparr>"
| "flag_set f (Set_nostd v) = f\<lparr>nostdFlag := v\<rparr>"
| "flag_set f (Set_nointer v) = f\<lparr>nointerFlag := v\<rparr>"
| "flag_set f (Set_tests v) = f\<lparr>testFlag := v\<rparr>"
| "flag_set f (Set_graphviz v) = f\<lparr>graphvizFlag := v\<rparr>"
| "flag_set f (Set_http v) = f\<lparr>httpFlag := v\<rparr>"
| "flag_set f (Set_skipbrowser v) = f\<lparr>skipBrowser := v\<rparr>"
| "flag_set f (Set_file v) = f\<lparr>outputFile := v\<rparr>"
| "flag_set f (Set_format v) = f\<lparr>outputFormat := v\<rparr>"
| "flag_set f (Set_cacheDir v) = f\<lparr>cacheDir := v\<rparr>"
| "flag_set f (Set_debug v) = f\<lparr>debugFlag := v\<rparr>"
| "flag_set f (Set_version v) = f\<lparr>versionFlag := v\<rparr>"
| "flag_set f (Set_tags v) = f\<lparr>tags := v\<rparr>"
| "flag_set f (Set_minlen v) = f\<lparr>minlen := v\<rparr>"
| "flag_set f (Set_nodesep v) = f\<lparr>nodesep := v\<rparr>"
| "flag_set f (Set_nodeshape v) = f\<lparr>nodeshape := v\<rparr>"
| "flag_set f (Set_nodestyle v) = f\<lparr>nodestyle := v\<rparr>"
| "flag_set f (Set_rankdir v) = f\<lparr>rankdir := v\<rparr>"
| "flag_set f Flag_help = f"
| "flag_set f (Flag_rejected arg) = f"

text \<open>
  The command line: the flags given, in order, and the positional arguments
  (\<open>flag.Args()\<close>).
\<close>

record cmdline =
  given :: "flag_setting list"
  positional :: "string list"

subsection \<open>What the process prints\<close>

text \<open>
  \<open>FlagError\<close> is the line in which the flag package reports the argument or the flag
  it rejects, \<open>FlagUsageOf\<close> its line "Usage of", which names the program.
\<close>

datatype printed =
    Stderr string
  | PrintDefaults
  | FlagError string
  | FlagUsageOf
  | Log string
  | Logf string

definition nl :: string where
  "nl = [CHR 0x0A]"

definition Usage :: string where
  "Usage = concat (map (\<lambda>l. l @ nl)
     [''go-callvis: visualize call graph of a Go program.'',
      '''',
      ''Usage:'',
      '''',
      ''  go-callvis [flags] package'',
      '''',
      ''  Package should be main package, otherwise -tests flag must be used.'',
      '''',
      ''Flags:'',
      ''''])"

subsection \<open>flag.Parse (main.go, line 150)\<close>

text \<open>
  The flag set of the command line exits the process on an error. \<open>flag_error\<close> is the
  exit an argument leads to, as the status and what is printed: \<open>-h\<close> and \<open>-help\<close> print
  the usage of the flag package and exit with status 0; a rejected argument, a
  \<open>-minlen\<close> that does not fit the 64 bits of a \<open>uint\<close>, and a \<open>-nodesep\<close> that
  rounds to an infinity (at least \<open>2^1024 - 2^970\<close> in absolute value) print the error
  and that usage and exit with status 2.
\<close>

definition UintSize :: nat where
  "UintSize = 64"

definition float64_overflows :: "decimal \<Rightarrow> bool" where
  "float64_overflows x = ((2 ^ 1024 - 2 ^ 970) * 10 ^ snd x \<le> \<bar>fst x\<bar>)"

fun flag_error :: "flag_setting \<Rightarrow> (nat \<times> printed list) option" where
  "flag_error Flag_help = Some (0, [FlagUsageOf, PrintDefaults])"
| "flag_error (Flag_rejected arg) = Some (2, [FlagError arg, FlagUsageOf, PrintDefaults])"
| "flag_error (Set_minlen v) =
     (if v < 2 ^ UintSize then None
      else Some (2, [FlagError ''minlen'', FlagUsageOf, PrintDefaults]))"
| "flag_error (Set_nodesep (Finite x)) =
     (if float64_overflows x
      then Some (2, [FlagError ''nodesep'', FlagUsageOf, PrintDefaults]) else None)"
| "flag_error g = None"

text \<open>
  The arguments are read in order: each sets its flag, and the first that leads to an
  exit ends the reading. The result is the values of the flags as the reading leaves
  them, and the exit if there is one.
\<close>

fun flag_parse_from :: "flags \<Rightarrow> flag_setting list \<Rightarrow> flags \<times> (nat \<times> printed list) option" where
  "flag_parse_from f [] = (f, None)"
| "flag_parse_from f (g # gs) =
     (case flag_error g of
        Some x \<Rightarrow> (f, Some x)
      | None \<Rightarrow> flag_parse_from (flag_set f g) gs)"

text \<open>\<open>flag.Parse()\<close>: every flag keeps its default unless the command line sets it.\<close>

definition flag_Parse :: "flag_setting list \<Rightarrow> flags \<times> (nat \<times> printed list) option" where
  "flag_Parse gs = flag_parse_from flag_defaults gs"

text \<open>\<open>logf\<close>: a log line only when \<open>-debug\<close> is on (the text is used as the format).\<close>

definition logf :: "flags \<Rightarrow> string \<Rightarrow> printed list" where
  "logf fl f = (if debugFlag fl then [Logf f] else [])"

subsection \<open>Requests and responses\<close>

record request =
  meth :: string
  path :: string
  form :: "(string \<times> string) list"

text \<open>\<open>Request.FormValue\<close>: the first value of the key, the empty string without one.\<close>

definition FormValue :: "request \<Rightarrow> string \<Rightarrow> string" where
  "FormValue req k = (case map_of (form req) k of None \<Rightarrow> '''' | Some v \<Rightarrow> v)"

datatype response =
    String_response nat string
  | Redirect nat string
  | Not_a_handler

definition StatusOK :: nat where
  "StatusOK = 200"

definition StatusMovedPermanently :: nat where
  "StatusMovedPermanently = 301"

text \<open>
  The routes \<open>ginServer\<close> registers with handlers of its own. Every other request (the
  static files under \<open>/root\<close>, an unknown path) is answered by the router without
  touching the program's state.
\<close>

datatype route = Route_options | Route_module | Route_other

definition route_of :: "request \<Rightarrow> route" where
  "route_of req =
     (if meth req = ''GET'' \<and> path req = ''/options'' then Route_options
      else if meth req = ''GET'' \<and> path req = ''/module'' then Route_module
      else Route_other)"

subsection \<open>The code that is not in main.go\<close>

text \<open>
  \<open>Analysis\<close> is a global of a type declared in another file, like its methods and
  \<open>Version\<close>. They are parameters here: \<open>'a\<close> is the value \<open>Analysis\<close> points to,
  a method that changes it returns the new value, and a method that returns an
  \<open>error\<close> returns \<open>Inl\<close> of its message.
\<close>

record 'a impl =
  Version :: string
  new_analysis :: 'a
  OptsSetup :: "flags \<Rightarrow> 'a \<Rightarrow> 'a"
  DoAnalysis :: "string \<Rightarrow> bool \<Rightarrow> string list \<Rightarrow> 'a \<Rightarrow> string + 'a"
  ProcessListArgs :: "'a \<Rightarrow> string + 'a"
  Render :: "'a \<Rightarrow> string + (string \<times> 'a)"
  OverrideByHTTP :: "request \<Rightarrow> 'a \<Rightarrow> 'a"
  UpdateOptUnMarshal :: "string \<Rightarrow> 'a \<Rightarrow> 'a"
  GetOptMarshal :: "'a \<Rightarrow> string"

text \<open>
  The environment of one step: whether \<open>ioutil.WriteFile\<close> fails on a path (with which
  error), and what \<open>dotToImage\<close>, which runs the external layout engine, returns for a
  file name, a format and a graph description (an error, or the name of the image).
\<close>

record env =
  WriteFile_error :: "string \<Rightarrow> string option"
  dotToImage :: "string \<Rightarrow> string \<Rightarrow> string \<Rightarrow> string + string"

subsection \<open>outputDot (main.go, lines 92-116)\<close>

text \<open>
  One run of the pipeline on the value of \<open>Analysis\<close>. The result is the lines logged,
  the files as the run leaves them, and the new value of \<open>Analysis\<close>; \<open>None\<close> in its
  place stands for \<open>log.Fatalf\<close>, which logs the error and ends the process with
  exit status 1.
\<close>

definition outputDot ::
  "'a impl \<Rightarrow> env \<Rightarrow> string \<Rightarrow> string \<Rightarrow> (string \<rightharpoonup> string) \<Rightarrow> 'a
     \<Rightarrow> printed list \<times> (string \<rightharpoonup> string) \<times> 'a option" where
  "outputDot impl ev fname format fs a =
     (case ProcessListArgs impl a of
        Inl e \<Rightarrow> ([Log e], fs, None)
      | Inr a1 \<Rightarrow>
          (case Render impl a1 of
             Inl err \<Rightarrow> ([Log err], fs, None)
           | Inr (output, a2) \<Rightarrow>
               (case WriteFile_error ev (fname @ ''.gv'') of
                  Some writeErr \<Rightarrow>
                    ([Log ''writing dot output..'', Log writeErr], fs, None)
                | None \<Rightarrow>
                    (let fs' = fs(fname @ ''.gv'' \<mapsto> output);
                         l = [Log ''writing dot output..'',
                              Log (''converting dot to '' @ format @ ''..'')]
                     in case dotToImage ev fname format output of
                          Inl err \<Rightarrow> (l @ [Log err], fs', None)
                        | Inr img \<Rightarrow> (l, fs', Some a2)))))"

subsection \<open>The handlers of ginServer (main.go, lines 118-144)\<close>

text \<open>
  \<open>GET /options\<close>: the lines logged, the new value of \<open>Analysis\<close> and the response.
\<close>

definition options_handler ::
  "'a impl \<Rightarrow> flags \<Rightarrow> request \<Rightarrow> 'a \<Rightarrow> printed list \<times> 'a \<times> response" where
  "options_handler impl fl req a =
     (let updateOpts = FormValue req ''opts'';
          a1 = (if length updateOpts > 0 then UpdateOptUnMarshal impl updateOpts a else a);
          opts = GetOptMarshal impl a1
      in ((if length updateOpts > 0 then logf fl updateOpts else []),
          a1, String_response StatusOK opts))"

text \<open>
  \<open>GET /module\<close>: the new value of \<open>Analysis\<close>, the arguments of the
  \<open>go outputDot(...)\<close> it starts, and the response.
\<close>

definition module_handler ::
  "'a impl \<Rightarrow> flags \<Rightarrow> request \<Rightarrow> 'a \<Rightarrow> 'a \<times> (string \<times> string) \<times> response" where
  "module_handler impl fl req a =
     (let a1 = OptsSetup impl fl a;
          a2 = OverrideByHTTP impl req a1
      in (a2, (''./static/data/go-callvis_export'', ''dot''),
          Redirect StatusMovedPermanently ''http://localhost:8000/root/test.html''))"

subsection \<open>The process\<close>

datatype proc_status = Running | Exited nat

text \<open>
  Where \<open>main\<close> stands: before \<open>go ginServer()\<close>; before \<open>flag.Parse()\<close>; before
  \<open>Analysis = new(analysis)\<close>, with the locals \<open>args\<close> and \<open>tests\<close>; before
  \<open>DoAnalysis\<close>; before \<open>outputDot\<close>; in \<open>time.Sleep\<close> until a time.
\<close>

datatype main_pc =
    M_start
  | M_parse
  | M_new "string list" bool
  | M_analysis "string list" bool
  | M_output
  | M_sleep nat

text \<open>
  The goroutine of \<open>ginServer\<close>: not started, started and not yet listening, serving
  requests, or returned because \<open>r.Run\<close> could not listen.
\<close>

datatype server_state = Server_none | Server_starting | Server_listening | Server_returned

record 'a proc =
  status :: proc_status
  clock :: nat
  flagvars :: flags
  Analysis :: "'a option"
  pc :: main_pc
  server :: server_state
  renders :: "(string \<times> string) list"
  files :: "string \<rightharpoonup> string"
  out :: "printed list"
  log_microseconds :: bool
  responses :: "response list"

text \<open>
  \<open>clock\<close> counts nanoseconds. \<open>Analysis\<close> is \<open>None\<close> while the pointer is nil.
  \<open>renders\<close> holds the goroutines \<open>go outputDot(fname, format)\<close> that were started and
  have not run yet, \<open>responses\<close> the responses sent so far.
\<close>

definition Hour :: nat where
  "Hour = 3600000000000"

definition init :: "'a proc" where
  "init =
     \<lparr> status = Running, clock = 0, flagvars = flag_defaults, Analysis = None,
       pc = M_start, server = Server_none, renders = [], files = Map.empty, out = [],
       log_microseconds = False, responses = [] \<rparr>"

subsection \<open>main (main.go, lines 147-179)\<close>

definition main_step :: "'a impl \<Rightarrow> cmdline \<Rightarrow> env \<Rightarrow> 'a proc \<Rightarrow> 'a proc option" where
  "main_step impl cl ev s =
     (case pc s of
        M_start \<Rightarrow> Some (s\<lparr>server := Server_starting, pc := M_parse\<rparr>)
      | M_parse \<Rightarrow>
          (case flag_Parse (given cl) of
             (fl, Some (code, l)) \<Rightarrow>
               Some (s\<lparr>flagvars := fl, out := out s @ l, status := Exited code\<rparr>)
           | (fl, None) \<Rightarrow>
               if versionFlag fl then
                 Some (s\<lparr>flagvars := fl, out := out s @ [Stderr (Version impl @ nl)],
                         status := Exited 0\<rparr>)
               else if length (positional cl) \<noteq> 1 then
                 Some (s\<lparr>flagvars := fl,
                         log_microseconds := (debugFlag fl \<or> log_microseconds s),
                         out := out s @ [Stderr Usage, PrintDefaults],
                         status := Exited 2\<rparr>)
               else
                 Some (s\<lparr>flagvars := fl,
                         log_microseconds := (debugFlag fl \<or> log_microseconds s),
                         pc := M_new (positional cl) (testFlag fl)\<rparr>))
      | M_new args tests \<Rightarrow>
          Some (s\<lparr>Analysis := Some (OptsSetup impl (flagvars s) (new_analysis impl)),
                  pc := M_analysis args tests\<rparr>)
      | M_analysis args tests \<Rightarrow>
          (case Analysis s of
             None \<Rightarrow> None
           | Some a \<Rightarrow>
               (case DoAnalysis impl ''./'' tests args a of
                  Inl err \<Rightarrow> Some (s\<lparr>out := out s @ [Log err], status := Exited 1\<rparr>)
                | Inr a' \<Rightarrow> Some (s\<lparr>Analysis := Some a', pc := M_output\<rparr>)))
      | M_output \<Rightarrow>
          (case Analysis s of
             None \<Rightarrow> None
           | Some a \<Rightarrow>
               (case outputDot impl ev ''./static/data/go-callvis_export'' ''dot'' (files s) a of
                  (l, fs, None) \<Rightarrow>
                    Some (s\<lparr>out := out s @ l, files := fs, status := Exited 1\<rparr>)
                | (l, fs, Some a') \<Rightarrow>
                    Some (s\<lparr>out := out s @ l, files := fs, Analysis := Some a',
                            pc := M_sleep (clock s + Hour)\<rparr>)))
      | M_sleep until \<Rightarrow>
          (if until \<le> clock s then Some (s\<lparr>status := Exited 0\<rparr>) else None))"

subsection \<open>The control loop and the render goroutines\<close>

text \<open>
  A request is served only while the server listens. The two handlers call methods of
  \<open>Analysis\<close>; what those methods do on a nil pointer is not in main.go, and a request
  for them that arrives before \<open>main\<close> has set \<open>Analysis\<close> has no step here.
\<close>

definition request_step :: "'a impl \<Rightarrow> request \<Rightarrow> 'a proc \<Rightarrow> 'a proc option" where
  "request_step impl req s =
     (if server s \<noteq> Server_listening then None
      else case route_of req of
        Route_other \<Rightarrow> Some (s\<lparr>responses := responses s @ [Not_a_handler]\<rparr>)
      | Route_options \<Rightarrow>
          (case Analysis s of
             None \<Rightarrow> None
           | Some a \<Rightarrow>
               (case options_handler impl (flagvars s) req a of
                  (l, a', resp) \<Rightarrow>
                    Some (s\<lparr>out := out s @ l, Analysis := Some a',
                            responses := responses s @ [resp]\<rparr>)))
      | Route_module \<Rightarrow>
          (case Analysis s of
             None \<Rightarrow> None
           | Some a \<Rightarrow>
               (case module_handler impl (flagvars s) req a of
                  (a', task, resp) \<Rightarrow>
                    Some (s\<lparr>Analysis := Some a', renders := renders s @ [task],
                            responses := responses s @ [resp]\<rparr>))))"

text \<open>
  The render goroutine number \<open>i\<close> runs: \<open>outputDot\<close> on the value \<open>Analysis\<close> has now.
\<close>

definition render_step :: "'a impl \<Rightarrow> nat \<Rightarrow> env \<Rightarrow> 'a proc \<Rightarrow> 'a proc option" where
  "render_step impl i ev s =
     (if i < length (renders s) then
        (case Analysis s of
           None \<Rightarrow> None
         | Some a \<Rightarrow>
             (case outputDot impl ev (fst (renders s ! i)) (snd (renders s ! i)) (files s) a of
                (l, fs, None) \<Rightarrow>
                  Some (s\<lparr>out := out s @ l, files := fs, status := Exited 1\<rparr>)
              | (l, fs, Some a') \<Rightarrow>
                  Some (s\<lparr>out := out s @ l, files := fs, Analysis := Some a',
                          renders := take i (renders s) @ drop (Suc i) (renders s)\<rparr>)))
      else None)"

datatype event =
    Ev_main env
  | Ev_listen bool
  | Ev_request request
  | Ev_render nat env
  | Ev_tick nat

text \<open>
  One step of the process; \<open>None\<close> when the event cannot happen in the state. A process
  that has exited takes no step.
\<close>

definition step :: "'a impl \<Rightarrow> cmdline \<Rightarrow> event \<Rightarrow> 'a proc \<Rightarrow> 'a proc option" where
  "step impl cl e s =
     (if status s \<noteq> Running then None
      else case e of
        Ev_main ev \<Rightarrow> main_step impl cl ev s
      | Ev_listen ok \<Rightarrow>
          (if server s = Server_starting
           then Some (s\<lparr>server := (if ok then Server_listening else Server_returned)\<rparr>)
           else None)
      | Ev_request req \<Rightarrow> request_step impl req s
      | Ev_render i ev \<Rightarrow> render_step impl i ev s
      | Ev_tick d \<Rightarrow> Some (s\<lparr>clock := clock s + d\<rparr>))"

fun run :: "'a impl \<Rightarrow> cmdline \<Rightarrow> event list \<Rightarrow> 'a proc \<Rightarrow> 'a proc option" where
  "run impl cl [] s = Some s"
| "run impl cl (e # es) s =
     (case step impl cl e s of None \<Rightarrow> None | Some s' \<Rightarrow> run impl cl es s')"

text \<open>
  Some stage of a run of the pipeline returns an error: the four checks of \<open>outputDot\<close>,
  in its order.
\<close>

definition stage_fails :: "'a impl \<Rightarrow> env \<Rightarrow> string \<Rightarrow> string \<Rightarrow> 'a \<Rightarrow> bool" where
  "stage_fails impl ev fname format a =
     (case ProcessListArgs impl a of
        Inl e \<Rightarrow> True
      | Inr a1 \<Rightarrow>
          (case Render impl a1 of
             Inl err \<Rightarrow> True
           | Inr (output, a2) \<Rightarrow>
               (case WriteFile_error ev (fname @ ''.gv'') of
                  Some writeErr \<Rightarrow> True
                | None \<Rightarrow> isl (dotToImage ev fname format output))))"

text \<open>The content of a file, if the file exists.\<close>

definition file_of :: "string \<Rightarrow> 'a proc \<Rightarrow> string option" where
  "file_of p s = files s p"

text \<open>The event happens and leaves the process exited with the given status.\<close>

definition exits_with :: "'a impl \<Rightarrow> cmdline \<Rightarrow> event \<Rightarrow> 'a proc \<Rightarrow> nat \<Rightarrow> bool" where
  "exits_with impl cl e s n =
     (case step impl cl e s of None \<Rightarrow> False | Some s' \<Rightarrow> status s' = Exited n)"

subsection \<open>A model of the missing code, for concrete runs\<close>

text \<open>
  The general theorems below hold for every implementation of the missing methods. A
  concrete run needs one implementation; this one follows the spec's description of the
  options store (4.7, 4.8).
\<close>

text \<open>
  Modelled from the spec: the value of the options store of analysis.go, which is not
  under src/. The spec has the options as a flat record of switches; they are
  key/value pairs here.
\<close>

type_synonym store = "(string \<times> string) list"

text \<open>
  Modelled from the spec: the keys the store of analysis.go recognizes (focus target,
  group mode, limit, ignore and include prefixes, nostd, nointer).
\<close>

definition recognized :: "string list" where
  "recognized = [''focus'', ''group'', ''limit'', ''ignore'', ''include'', ''nostd'', ''nointer'']"

text \<open>
  Modelled from the spec: setting one option of the store of analysis.go, keeping the
  place of a key that is there already.
\<close>

fun set_option :: "string \<Rightarrow> string \<Rightarrow> store \<Rightarrow> store" where
  "set_option k v [] = [(k, v)]"
| "set_option k v ((k', v') # kvs) =
     (if k' = k then (k, v) # kvs else (k', v') # set_option k v kvs)"

text \<open>
  Modelled from the spec: \<open>applyOverrides\<close> of the store of analysis.go, which merges
  the recognized keys and ignores the others.
\<close>

definition applyOverrides :: "(string \<times> string) list \<Rightarrow> store \<Rightarrow> store" where
  "applyOverrides kvs a =
     foldl (\<lambda>a' kv. if fst kv \<in> set recognized then set_option (fst kv) (snd kv) a' else a')
       a kvs"

text \<open>
  Modelled from the spec: \<open>serialize\<close> and \<open>deserialize\<close> of the store of analysis.go.
  The spec fixes no format; the serialized form is \<open>key=value;\<close> for each pair.
\<close>

definition serialize :: "store \<Rightarrow> string" where
  "serialize a = concat (map (\<lambda>kv. fst kv @ ''='' @ snd kv @ '';'') a)"

fun split_at :: "char \<Rightarrow> string \<Rightarrow> string list" where
  "split_at c [] = [[]]"
| "split_at c (x # xs) =
     (if x = c then [] # split_at c xs
      else (case split_at c xs of [] \<Rightarrow> [[x]] | w # ws \<Rightarrow> (x # w) # ws))"

definition deserialize :: "string \<Rightarrow> (string \<times> string) list" where
  "deserialize p =
     map (\<lambda>f. (takeWhile (\<lambda>c. c \<noteq> CHR ''='') f, drop 1 (dropWhile (\<lambda>c. c \<noteq> CHR ''='') f)))
       (filter (\<lambda>f. f \<noteq> []) (split_at CHR '';'' p))"

definition show_bool :: "bool \<Rightarrow> string" where
  "show_bool b = (if b then ''true'' else ''false'')"

text \<open>
  Modelled from the spec: the methods of \<open>Analysis\<close>, which are in analysis.go and not
  under src/. \<open>GetOptMarshal\<close> serializes the store, \<open>UpdateOptUnMarshal\<close> merges a
  serialized override, \<open>OverrideByHTTP\<close> merges the query parameters of a request.
  \<open>OptsSetup\<close> follows the comment at its two call sites in main.go, "get cmdline
  default for analysis": it sets the options to the values of the flags. The stages of
  the graph pipeline (\<open>DoAnalysis\<close>, \<open>ProcessListArgs\<close>, \<open>Render\<close>) succeed on every
  input, and the graph description \<open>Render\<close> returns is the serialized options it was
  given, so that a written file shows which options a run used.
\<close>

definition store_impl :: "store impl" where
  "store_impl =
     \<lparr> Version = ''dev'',
       new_analysis = [],
       OptsSetup = (\<lambda>fl a.
         [(''focus'', focusFlag fl), (''group'', groupFlag fl), (''limit'', limitFlag fl),
          (''ignore'', ignoreFlag fl), (''include'', includeFlag fl),
          (''nostd'', show_bool (nostdFlag fl)), (''nointer'', show_bool (nointerFlag fl))]),
       DoAnalysis = (\<lambda>dir tests args a. Inr a),
       ProcessListArgs = (\<lambda>a. Inr a),
       Render = (\<lambda>a. Inr (serialize a, a)),
       OverrideByHTTP = (\<lambda>req a. applyOverrides (form req) a),
       UpdateOptUnMarshal = (\<lambda>p a. applyOverrides (deserialize p) a),
       GetOptMarshal = serialize \<rparr>"

text \<open>
  Two environments: one where the file can be written and the layout engine produces
  the image, one where the layout engine cannot be run.
\<close>

definition env_ok :: env where
  "env_ok =
     \<lparr> WriteFile_error = (\<lambda>p. None),
       dotToImage = (\<lambda>fname format output. Inr (fname @ ''.'' @ format)) \<rparr>"

definition env_no_engine :: env where
  "env_no_engine =
     \<lparr> WriteFile_error = (\<lambda>p. None),
       dotToImage = (\<lambda>fname format output. Inl ''RendererUnavailable'') \<rparr>"

text \<open>
  A command line with one package and no flag, and the start of the process up to the
  point where \<open>main\<close> sleeps and the server listens.
\<close>

definition cl_app :: cmdline where
  "cl_app = \<lparr> given = [], positional = [''./cmd/app''] \<rparr>"

text \<open>
  Two command lines that name no package: one asks for the version, one for help.
\<close>

definition cl_help :: cmdline where
  "cl_help = \<lparr> given = [Flag_help], positional = [] \<rparr>"

definition cl_version :: cmdline where
  "cl_version = \<lparr> given = [Set_version True], positional = [] \<rparr>"

definition startup :: "event list" where
  "startup =
     [Ev_main env_ok, Ev_listen True, Ev_main env_ok, Ev_main env_ok, Ev_main env_ok,
      Ev_main env_ok]"

text \<open>The state \<open>startup\<close> leads to.\<close>

definition serving :: "store proc" where
  "serving =
     \<lparr> status = Running, clock = 0, flagvars = flag_defaults,
       Analysis = Some
         [(''focus'', ''main''), (''group'', ''pkg''), (''limit'', ''''), (''ignore'', ''''),
          (''include'', ''''), (''nostd'', ''true''), (''nointer'', ''true'')],
       pc = M_sleep Hour, server = Server_listening, renders = [],
       files = [''./static/data/go-callvis_export.gv'' \<mapsto>
         ''focus=main;group=pkg;limit=;ignore=;include=;nostd=true;nointer=true;''],
       out = [Log ''writing dot output..'', Log ''converting dot to dot..''],
       log_microseconds = True, responses = [] \<rparr>"

text \<open>
  The state after the first four events of \<open>startup\<close>: the server listens and \<open>main\<close> is
  about to call \<open>DoAnalysis\<close>.
\<close>

definition analysing :: "store proc" where
  "analysing =
     \<lparr> status = Running, clock = 0, flagvars = flag_defaults,
       Analysis = Some
         [(''focus'', ''main''), (''group'', ''pkg''), (''limit'', ''''), (''ignore'', ''''),
          (''include'', ''''), (''nostd'', ''true''), (''nointer'', ''true'')],
       pc = M_analysis [''./cmd/app''] False, server = Server_listening, renders = [],
       files = Map.empty, out = [], log_microseconds = True, responses = [] \<rparr>"

definition get_options :: request where
  "get_options = \<lparr> meth = ''GET'', path = ''/options'', form = [] \<rparr>"

definition put_options :: "string \<Rightarrow> request" where
  "put_options p = \<lparr> meth = ''GET'', path = ''/options'', form = [(''opts'', p)] \<rparr>"

definition trigger :: "(string \<times> string) list \<Rightarrow> request" where
  "trigger q = \<lparr> meth = ''GET'', path = ''/module'', form = q \<rparr>"

section \<open>Properties\<close>

subsection \<open>Auxiliary facts\<close>

text \<open>
  The definitions of the model and of the concrete runs, for the simplifier; the two
  concrete states are reached from \<open>init\<close>; what each kind of step does.
\<close>

lemmas model_defs = step_def main_step_def init_def request_step_def render_step_def
  outputDot_def options_handler_def module_handler_def route_of_def FormValue_def
  flag_Parse_def flag_defaults_def logf_def StatusOK_def StatusMovedPermanently_def

lemmas stub_defs = store_impl_def applyOverrides_def serialize_def deserialize_def
  recognized_def show_bool_def env_ok_def env_no_engine_def cl_app_def startup_def
  get_options_def put_options_def trigger_def serving_def

lemma run_startup: "run store_impl cl_app startup init = Some serving"
  by (simp add: model_defs stub_defs)

lemma run_append:
  "run impl cl (es @ es') s = (case run impl cl es s of None \<Rightarrow> None | Some s' \<Rightarrow> run impl cl es' s')"
  by (induction es arbitrary: s) (simp_all split: option.splits)

lemma step_exited: "status s \<noteq> Running \<Longrightarrow> step impl cl e s = None"
  by (simp add: step_def)

lemma outputDot_fatal_iff:
  "snd (snd (outputDot impl ev fname format fs a)) = None \<longleftrightarrow> stage_fails impl ev fname format a"
  by (simp add: outputDot_def stage_fails_def Let_def split: sum.splits option.splits prod.splits)

lemma outputDot_logs: "fst (outputDot impl ev fname format fs a) \<noteq> []"
  by (simp add: outputDot_def Let_def split: sum.splits option.splits prod.splits)

lemma stage_fails_iff:
  "stage_fails impl ev fname format a \<longleftrightarrow>
     (\<exists>e. ProcessListArgs impl a = Inl e) \<or>
     (\<exists>a1 e. ProcessListArgs impl a = Inr a1 \<and> Render impl a1 = Inl e) \<or>
     (\<exists>a1 d a2 e. ProcessListArgs impl a = Inr a1 \<and> Render impl a1 = Inr (d, a2) \<and>
        WriteFile_error ev (fname @ ''.gv'') = Some e) \<or>
     (\<exists>a1 d a2 e. ProcessListArgs impl a = Inr a1 \<and> Render impl a1 = Inr (d, a2) \<and>
        WriteFile_error ev (fname @ ''.gv'') = None \<and> dotToImage ev fname format d = Inl e)"
  by (auto simp add: stage_fails_def isl_def split: sum.splits option.splits prod.splits)

lemma step_request_module:
  assumes "status s = Running" "server s = Server_listening" "Analysis s = Some a"
    and "route_of req = Route_module"
  shows "step impl cl (Ev_request req) s =
           Some (s\<lparr>Analysis := Some (OverrideByHTTP impl req (OptsSetup impl (flagvars s) a)),
                   renders := renders s @ [(''./static/data/go-callvis_export'', ''dot'')],
                   responses := responses s @
                     [Redirect StatusMovedPermanently ''http://localhost:8000/root/test.html'']\<rparr>)"
  using assms by (simp add: step_def request_step_def module_handler_def)

lemma step_request_options:
  assumes "status s = Running" "server s = Server_listening" "Analysis s = Some a"
    and "route_of req = Route_options"
  shows "step impl cl (Ev_request req) s =
           Some (s\<lparr>out := out s @ (if FormValue req ''opts'' = [] then []
                                     else logf (flagvars s) (FormValue req ''opts'')),
                   Analysis := Some (if FormValue req ''opts'' = [] then a
                                     else UpdateOptUnMarshal impl (FormValue req ''opts'') a),
                   responses := responses s @
                     [String_response StatusOK
                        (GetOptMarshal impl (if FormValue req ''opts'' = [] then a
                           else UpdateOptUnMarshal impl (FormValue req ''opts'') a))]\<rparr>)"
  using assms by (simp add: step_def request_step_def options_handler_def Let_def)

lemma step_render:
  assumes "status s = Running" "i < length (renders s)" "Analysis s = Some a"
  shows "step impl cl (Ev_render i ev) s =
           (case outputDot impl ev (fst (renders s ! i)) (snd (renders s ! i)) (files s) a of
              (l, fs, None) \<Rightarrow> Some (s\<lparr>out := out s @ l, files := fs, status := Exited 1\<rparr>)
            | (l, fs, Some a') \<Rightarrow>
                Some (s\<lparr>out := out s @ l, files := fs, Analysis := Some a',
                        renders := take i (renders s) @ drop (Suc i) (renders s)\<rparr>))"
  using assms by (simp add: step_def render_step_def split: prod.splits option.splits)

lemma flag_Parse_Nil: "flag_Parse [] = (flag_defaults, None)"
  by (simp add: flag_Parse_def)

lemma run_snoc:
  "run impl cl (es @ [e]) s = (case run impl cl es s of None \<Rightarrow> None | Some s' \<Rightarrow> step impl cl e s')"
  by (simp add: run_append split: option.splits)

lemma step_main_start:
  "status s = Running \<Longrightarrow> pc s = M_start \<Longrightarrow>
     step impl cl (Ev_main ev) s = Some (s\<lparr>server := Server_starting, pc := M_parse\<rparr>)"
  by (simp add: step_def main_step_def)

lemma step_main_analysis:
  assumes "status s = Running" "pc s = M_analysis args tests" "Analysis s = Some a"
  shows "step impl cl (Ev_main ev) s =
           (case DoAnalysis impl ''./'' tests args a of
              Inl err \<Rightarrow> Some (s\<lparr>out := out s @ [Log err], status := Exited 1\<rparr>)
            | Inr a' \<Rightarrow> Some (s\<lparr>Analysis := Some a', pc := M_output\<rparr>))"
  using assms by (simp add: step_def main_step_def split: sum.splits)

lemma step_main_output:
  assumes "status s = Running" "pc s = M_output" "Analysis s = Some a"
  shows "step impl cl (Ev_main ev) s =
           (case outputDot impl ev ''./static/data/go-callvis_export'' ''dot'' (files s) a of
              (l, fs, None) \<Rightarrow> Some (s\<lparr>out := out s @ l, files := fs, status := Exited 1\<rparr>)
            | (l, fs, Some a') \<Rightarrow>
                Some (s\<lparr>out := out s @ l, files := fs, Analysis := Some a',
                        pc := M_sleep (clock s + Hour)\<rparr>))"
  using assms by (simp add: step_def main_step_def split: prod.splits option.splits)

lemma step_request_other:
  assumes "status s = Running" "server s = Server_listening" "route_of req = Route_other"
  shows "step impl cl (Ev_request req) s = Some (s\<lparr>responses := responses s @ [Not_a_handler]\<rparr>)"
  using assms by (simp add: step_def request_step_def)

lemma step_request_served:
  assumes "status s = Running" "server s = Server_listening" "Analysis s = Some a"
  shows "\<exists>s'. step impl cl (Ev_request req) s = Some s' \<and> status s' = Running \<and>
           server s' = Server_listening \<and> pc s' = pc s \<and>
           length (responses s') = Suc (length (responses s))"
proof (cases "route_of req")
  case Route_options
  then show ?thesis using step_request_options [OF assms, of req impl cl] assms by simp
next
  case Route_module
  then show ?thesis using step_request_module [OF assms, of req impl cl] assms by simp
next
  case Route_other
  then show ?thesis using step_request_other [OF assms(1,2), of req impl cl] assms by simp
qed

lemma run_analysing:
  "run store_impl cl_app [Ev_main env_ok, Ev_listen True, Ev_main env_ok, Ev_main env_ok] init
     = Some analysing"
  by (simp add: model_defs stub_defs analysing_def)

subsection \<open>A failing render in service mode\<close>

text \<open>
  C1, as amended. A run of the pipeline that a request started and in which a stage
  fails does not fail for that request alone: \<open>outputDot\<close> reports the error with
  \<open>log.Fatalf\<close>, which ends the whole process with exit status 1, and a process that
  has exited takes no further step, so no later request is served. A run whose stages
  all succeed leaves the process running and the server as it was.
\<close>

theorem render_failure_ends_process:
  assumes "status s = Running" "i < length (renders s)" "Analysis s = Some a"
  shows "(stage_fails impl ev (fst (renders s ! i)) (snd (renders s ! i)) a \<longrightarrow>
            (\<exists>s'. step impl cl (Ev_render i ev) s = Some s' \<and> status s' = Exited 1 \<and>
                  (\<forall>e. step impl cl e s' = None))) \<and>
         (\<not> stage_fails impl ev (fst (renders s ! i)) (snd (renders s ! i)) a \<longrightarrow>
            (\<exists>s'. step impl cl (Ev_render i ev) s = Some s' \<and> status s' = Running \<and>
                  server s' = server s))"
proof -
  let ?r = "outputDot impl ev (fst (renders s ! i)) (snd (renders s ! i)) (files s) a"
  obtain l fs r where r: "?r = (l, fs, r)"
    by (cases ?r) auto
  have fatal: "r = None \<longleftrightarrow> stage_fails impl ev (fst (renders s ! i)) (snd (renders s ! i)) a"
    using outputDot_fatal_iff [of impl ev "fst (renders s ! i)" "snd (renders s ! i)" "files s" a] r
    by simp
  show ?thesis
  proof (cases r)
    case None
    then have "step impl cl (Ev_render i ev) s =
        Some (s\<lparr>out := out s @ l, files := fs, status := Exited 1\<rparr>)"
      using step_render [OF assms, of impl cl ev] r by simp
    then show ?thesis
      using None fatal by (simp add: step_exited)
  next
    case (Some a')
    then have "step impl cl (Ev_render i ev) s =
        Some (s\<lparr>out := out s @ l, files := fs, Analysis := Some a',
                renders := take i (renders s) @ drop (Suc i) (renders s)\<rparr>)"
      using step_render [OF assms, of impl cl ev] r by simp
    then show ?thesis
      using Some fatal assms(1) by simp
  qed
qed

text \<open>
  The two cases at the state the start of the process leads to, with one render started:
  the layout engine missing, and everything in place.
\<close>

theorem render_failure_ends_process_witness:
  "(\<exists>s'. step store_impl cl_app (Ev_render 0 env_no_engine)
           (serving\<lparr>renders := [(''./static/data/go-callvis_export'', ''dot'')]\<rparr>) = Some s' \<and>
         status s' = Exited 1 \<and> (\<forall>e. step store_impl cl_app e s' = None)) \<and>
   (\<exists>s'. step store_impl cl_app (Ev_render 0 env_ok)
           (serving\<lparr>renders := [(''./static/data/go-callvis_export'', ''dot'')]\<rparr>) = Some s' \<and>
         status s' = Running \<and> server s' = Server_listening)"
  using render_failure_ends_process
      [of "serving\<lparr>renders := [(''./static/data/go-callvis_export'', ''dot'')]\<rparr>" 0
          _ store_impl env_no_engine cl_app]
    render_failure_ends_process
      [of "serving\<lparr>renders := [(''./static/data/go-callvis_export'', ''dot'')]\<rparr>" 0
          _ store_impl env_ok cl_app]
  by (simp add: serving_def stage_fails_def store_impl_def env_no_engine_def env_ok_def)

text \<open>
  C1 as stated fails: the process starts, a request triggers a render, the layout engine
  cannot be run. The process has exit status 1 and the next request is not served; the
  same request is served when no render has failed before it.
\<close>

theorem render_failure_counterexample:
  "map_option status
     (run store_impl cl_app (startup @ [Ev_request (trigger []), Ev_render 0 env_no_engine]) init)
     = Some (Exited 1) \<and>
   run store_impl cl_app
     (startup @ [Ev_request (trigger []), Ev_render 0 env_no_engine, Ev_request get_options]) init
     = None \<and>
   map_option responses
     (run store_impl cl_app (startup @ [Ev_request (trigger []), Ev_request get_options]) init)
     = Some [Redirect 301 ''http://localhost:8000/root/test.html'',
             String_response 200
               ''focus=main;group=pkg;limit=;ignore=;include=;nostd=true;nointer=true;'']"
  by (simp add: model_defs stub_defs)

subsection \<open>The order of startup\<close>

text \<open>
  C2, as amended. The first thing \<open>main\<close> does is to start the control loop in a
  goroutine of its own; only then does it parse the flags and execute one full pipeline
  run (\<open>DoAnalysis\<close>, then \<open>outputDot\<close>) on its own goroutine, going to sleep after the
  run. An error of \<open>DoAnalysis\<close> in that run ends the process with exit status 1. While
  the run is still ahead or in progress, a server that listens serves requests.
\<close>

theorem startup_order:
  assumes "status s = Running" "Analysis s = Some a"
  shows "step impl cl (Ev_main ev) init = Some (init\<lparr>server := Server_starting, pc := M_parse\<rparr>) \<and>
         (pc s = M_analysis args tests \<and> isl (DoAnalysis impl ''./'' tests args a) \<longrightarrow>
            exits_with impl cl (Ev_main ev) s 1) \<and>
         (pc s = M_analysis args tests \<and> DoAnalysis impl ''./'' tests args a = Inr a' \<and>
          \<not> stage_fails impl ev ''./static/data/go-callvis_export'' ''dot'' a' \<longrightarrow>
            (\<exists>s'. run impl cl [Ev_main ev, Ev_main ev] s = Some s' \<and> status s' = Running \<and>
                  pc s' = M_sleep (clock s + Hour))) \<and>
         (pc s = M_analysis args tests \<and> server s = Server_listening \<longrightarrow>
            (\<exists>s'. step impl cl (Ev_request req) s = Some s' \<and> pc s' = M_analysis args tests \<and>
                  length (responses s') = Suc (length (responses s)))) \<and>
         (pc s = M_output \<and> server s = Server_listening \<longrightarrow>
            (\<exists>s'. step impl cl (Ev_request req) s = Some s' \<and> pc s' = M_output \<and>
                  length (responses s') = Suc (length (responses s))))"
proof -
  have a: "step impl cl (Ev_main ev) init = Some (init\<lparr>server := Server_starting, pc := M_parse\<rparr>)"
    by (rule step_main_start) (simp_all add: init_def)
  have b: "exits_with impl cl (Ev_main ev) s 1"
    if "pc s = M_analysis args tests" "isl (DoAnalysis impl ''./'' tests args a)"
    using step_main_analysis [OF assms(1) that(1) assms(2), of impl cl ev] that(2)
    by (simp add: exits_with_def isl_def split: sum.splits)
  have c: "\<exists>s'. step impl cl (Ev_request req) s = Some s' \<and> pc s' = pc s \<and>
                  length (responses s') = Suc (length (responses s))"
    if "server s = Server_listening"
    using step_request_served [OF assms(1) that assms(2), of impl cl req] by blast
  have d: "\<exists>s'. run impl cl [Ev_main ev, Ev_main ev] s = Some s' \<and> status s' = Running \<and>
                  pc s' = M_sleep (clock s + Hour)"
    if pc: "pc s = M_analysis args tests" and ok: "DoAnalysis impl ''./'' tests args a = Inr a'"
      and nf: "\<not> stage_fails impl ev ''./static/data/go-callvis_export'' ''dot'' a'"
  proof -
    let ?s1 = "s\<lparr>Analysis := Some a', pc := M_output\<rparr>"
    have s1: "step impl cl (Ev_main ev) s = Some ?s1"
      using step_main_analysis [OF assms(1) pc assms(2), of impl cl ev] ok by simp
    obtain l fs r where r:
      "outputDot impl ev ''./static/data/go-callvis_export'' ''dot'' (files ?s1) a' = (l, fs, r)"
      by (cases "outputDot impl ev ''./static/data/go-callvis_export'' ''dot'' (files ?s1) a'") auto
    have "r \<noteq> None"
      using outputDot_fatal_iff
        [of impl ev "''./static/data/go-callvis_export''" "''dot''" "files ?s1" a'] r nf
      by simp
    then obtain a'' where a'': "r = Some a''" by auto
    have "step impl cl (Ev_main ev) ?s1 =
        Some (?s1\<lparr>out := out ?s1 @ l, files := fs, Analysis := Some a'',
                   pc := M_sleep (clock ?s1 + Hour)\<rparr>)"
      using step_main_output [of ?s1 a' impl cl ev] assms(1) r a'' by simp
    then show ?thesis using s1 assms(1) by simp
  qed
  show ?thesis using a b c d by auto
qed

text \<open>
  At the state where \<open>main\<close> is about to call \<open>DoAnalysis\<close>: an analysis that fails, a
  startup run that succeeds, and a request served before the analysis and before
  \<open>outputDot\<close>.
\<close>

theorem startup_order_witness:
  "step store_impl cl_app (Ev_main env_ok) init
     = Some (init\<lparr>server := Server_starting, pc := M_parse\<rparr>) \<and>
   exits_with (store_impl\<lparr>DoAnalysis := (\<lambda>dir tests args a. Inl ''AnalysisUnavailable'')\<rparr>)
     cl_app (Ev_main env_ok) analysing 1 \<and>
   (\<exists>s'. run store_impl cl_app [Ev_main env_ok, Ev_main env_ok] analysing = Some s' \<and>
         status s' = Running \<and> pc s' = M_sleep (0 + Hour)) \<and>
   (\<exists>s'. step store_impl cl_app (Ev_request get_options) analysing = Some s' \<and>
         pc s' = M_analysis [''./cmd/app''] False \<and> length (responses s') = Suc 0) \<and>
   (\<exists>s'. step store_impl cl_app (Ev_request get_options) (analysing\<lparr>pc := M_output\<rparr>) = Some s' \<and>
         pc s' = M_output \<and> length (responses s') = Suc 0)"
  using startup_order
      [of analysing _ "store_impl\<lparr>DoAnalysis := (\<lambda>dir tests args a. Inl ''AnalysisUnavailable'')\<rparr>"
          cl_app env_ok "[''./cmd/app'']" False]
    startup_order [of analysing _ store_impl cl_app env_ok "[''./cmd/app'']" False _ get_options]
    startup_order [of "analysing\<lparr>pc := M_output\<rparr>" _ store_impl cl_app env_ok _ _ _ get_options]
  by (simp add: analysing_def store_impl_def stage_fails_def env_ok_def)

text \<open>
  C2 as stated fails: \<open>main\<close> starts the server, the server listens, \<open>main\<close> parses the
  flags and sets \<open>Analysis\<close>; a request for the options is then answered with status
  200 while \<open>main\<close> has not yet called \<open>DoAnalysis\<close> and no graph description has been
  written.
\<close>

theorem startup_order_counterexample:
  "map_option responses
     (run store_impl cl_app
        [Ev_main env_ok, Ev_listen True, Ev_main env_ok, Ev_main env_ok, Ev_request get_options]
        init)
     = Some [String_response 200
               ''focus=main;group=pkg;limit=;ignore=;include=;nostd=true;nointer=true;''] \<and>
   map_option pc
     (run store_impl cl_app
        [Ev_main env_ok, Ev_listen True, Ev_main env_ok, Ev_main env_ok, Ev_request get_options]
        init)
     = Some (M_analysis [''./cmd/app''] False) \<and>
   map_option (file_of ''./static/data/go-callvis_export.gv'')
     (run store_impl cl_app
        [Ev_main env_ok, Ev_listen True, Ev_main env_ok, Ev_main env_ok, Ev_request get_options]
        init)
     = Some None"
  by (simp add: model_defs stub_defs file_of_def)

subsection \<open>Runs in flight\<close>

text \<open>
  C3, as amended. Every render-trigger request starts a run of its own: after \<open>n\<close>
  requests, \<open>n\<close> more runs are in flight, whatever was in flight before and whether or
  not the requests are the same. Nothing in main.go keys a run by a fingerprint or
  waits for a run in flight.
\<close>

theorem every_trigger_starts_a_run:
  assumes "status s = Running" "server s = Server_listening" "Analysis s = Some a"
    and "route_of req = Route_module"
  shows "\<exists>s'. run impl cl (replicate n (Ev_request req)) s = Some s' \<and>
           renders s' = renders s @ replicate n (''./static/data/go-callvis_export'', ''dot'') \<and>
           status s' = Running"
  using assms(1-3)
proof (induction n arbitrary: s a)
  case 0
  then show ?case by simp
next
  case (Suc n)
  let ?s1 = "s\<lparr>Analysis := Some (OverrideByHTTP impl req (OptsSetup impl (flagvars s) a)),
                renders := renders s @ [(''./static/data/go-callvis_export'', ''dot'')],
                responses := responses s @
                  [Redirect StatusMovedPermanently ''http://localhost:8000/root/test.html'']\<rparr>"
  have s1: "step impl cl (Ev_request req) s = Some ?s1"
    using step_request_module [OF Suc.prems assms(4), of impl cl] .
  obtain s' where s': "run impl cl (replicate n (Ev_request req)) ?s1 = Some s'"
      "renders s' = renders ?s1 @ replicate n (''./static/data/go-callvis_export'', ''dot'')"
      "status s' = Running"
    using Suc.IH [of ?s1 "OverrideByHTTP impl req (OptsSetup impl (flagvars s) a)"] Suc.prems
    by auto
  show ?case
    using s1 s' by (simp add: replicate_app_Cons_same)
qed

text \<open>Two equal requests at the state the start of the process leads to.\<close>

theorem every_trigger_starts_a_run_witness:
  "\<exists>s'. run store_impl cl_app (replicate 2 (Ev_request (trigger []))) serving = Some s' \<and>
     renders s' = [] @ replicate 2 (''./static/data/go-callvis_export'', ''dot'') \<and>
     status s' = Running"
  using every_trigger_starts_a_run [of serving _ "trigger []" store_impl cl_app 2]
  by (simp add: serving_def trigger_def route_of_def)

text \<open>
  C3 as stated fails: two render triggers with the same (empty) query leave two runs in
  flight, with the same options in the store after the first and after the second, and
  both runs are executed: the log has the two lines of the startup run and the two lines
  of each of the two runs.
\<close>

theorem single_flight_counterexample:
  "map_option renders
     (run store_impl cl_app (startup @ [Ev_request (trigger []), Ev_request (trigger [])]) init)
     = Some [(''./static/data/go-callvis_export'', ''dot''),
             (''./static/data/go-callvis_export'', ''dot'')] \<and>
   map_option Analysis
     (run store_impl cl_app (startup @ [Ev_request (trigger [])]) init)
     = map_option Analysis
     (run store_impl cl_app (startup @ [Ev_request (trigger []), Ev_request (trigger [])]) init) \<and>
   map_option out
     (run store_impl cl_app
        (startup @ [Ev_request (trigger []), Ev_request (trigger []),
                    Ev_render 0 env_ok, Ev_render 0 env_ok]) init)
     = Some [Log ''writing dot output..'', Log ''converting dot to dot..'',
             Log ''writing dot output..'', Log ''converting dot to dot..'',
             Log ''writing dot output..'', Log ''converting dot to dot..'']"
  by (simp add: model_defs stub_defs)

subsection \<open>The render trigger\<close>

text \<open>
  C4. A render-trigger request is answered with a redirect (status 301) to the fixed
  location \<open>http://localhost:8000/root/test.html\<close>, and the run it starts is in flight
  when the response is sent: it has not executed, since nothing was logged or written
  (a run that executes always logs).
\<close>

theorem render_trigger_redirects:
  assumes "status s = Running" "server s = Server_listening" "Analysis s = Some a"
    and "route_of req = Route_module"
  shows "\<exists>s'. step impl cl (Ev_request req) s = Some s' \<and>
           responses s' = responses s @ [Redirect 301 ''http://localhost:8000/root/test.html''] \<and>
           renders s' = renders s @ [(''./static/data/go-callvis_export'', ''dot'')] \<and>
           out s' = out s \<and> files s' = files s \<and> status s' = Running \<and>
           (\<forall>ev fs a'. fst (outputDot impl ev ''./static/data/go-callvis_export'' ''dot'' fs a') \<noteq> [])"
  using step_request_module [OF assms, of impl cl] assms(1)
  by (simp add: StatusMovedPermanently_def outputDot_logs)

text \<open>A render trigger at the state the start of the process leads to.\<close>

theorem render_trigger_redirects_witness:
  "\<exists>s'. step store_impl cl_app (Ev_request (trigger [(''focus'', ''lib'')])) serving = Some s' \<and>
     responses s' = [] @ [Redirect 301 ''http://localhost:8000/root/test.html''] \<and>
     renders s' = [] @ [(''./static/data/go-callvis_export'', ''dot'')] \<and>
     out s' = [Log ''writing dot output..'', Log ''converting dot to dot..''] \<and>
     status s' = Running"
  using render_trigger_redirects [of serving _ "trigger [(''focus'', ''lib'')]" store_impl cl_app]
  by (auto simp add: serving_def trigger_def route_of_def)

subsection \<open>The options a run uses\<close>

text \<open>
  C5, as amended. A render-trigger request takes no snapshot. It sets the shared store
  to \<open>OverrideByHTTP\<close> of the request applied to \<open>OptsSetup\<close> of the store, and starts
  the run with two constants as its only arguments. The run reads the shared store when
  it executes: when an option-exchange request comes between the trigger and the run,
  the run works on the store as that request left it.
\<close>

theorem render_uses_store_at_run_time:
  assumes "status s = Running" "server s = Server_listening" "Analysis s = Some a"
    and "route_of req = Route_module" "route_of req' = Route_options"
  shows "let a1 = OverrideByHTTP impl req (OptsSetup impl (flagvars s) a);
             a2 = (if FormValue req' ''opts'' = [] then a1
                   else UpdateOptUnMarshal impl (FormValue req' ''opts'') a1);
             r = outputDot impl ev ''./static/data/go-callvis_export'' ''dot'' (files s) a2
         in \<exists>s1 s2 s3.
              step impl cl (Ev_request req) s = Some s1 \<and> Analysis s1 = Some a1 \<and>
              renders s1 = renders s @ [(''./static/data/go-callvis_export'', ''dot'')] \<and>
              step impl cl (Ev_request req') s1 = Some s2 \<and> Analysis s2 = Some a2 \<and>
              step impl cl (Ev_render (length (renders s)) ev) s2 = Some s3 \<and>
              out s3 = out s2 @ fst r \<and> files s3 = fst (snd r)"
proof -
  define a1 where "a1 = OverrideByHTTP impl req (OptsSetup impl (flagvars s) a)"
  define a2 where "a2 = (if FormValue req' ''opts'' = [] then a1
                   else UpdateOptUnMarshal impl (FormValue req' ''opts'') a1)"
  define r where "r = outputDot impl ev ''./static/data/go-callvis_export'' ''dot'' (files s) a2"
  define s1 where "s1 = s\<lparr>Analysis := Some a1,
      renders := renders s @ [(''./static/data/go-callvis_export'', ''dot'')],
      responses := responses s @
        [Redirect StatusMovedPermanently ''http://localhost:8000/root/test.html'']\<rparr>"
  define s2 where "s2 = s1\<lparr>out := out s1 @ (if FormValue req' ''opts'' = [] then []
                                     else logf (flagvars s1) (FormValue req' ''opts'')),
      Analysis := Some a2,
      responses := responses s1 @ [String_response StatusOK (GetOptMarshal impl a2)]\<rparr>"
  have st1: "step impl cl (Ev_request req) s = Some s1"
    using step_request_module [OF assms(1-4), of impl cl] by (simp add: s1_def a1_def)
  have p1: "status s1 = Running" "server s1 = Server_listening" "Analysis s1 = Some a1"
    using assms(1,2) by (simp_all add: s1_def)
  have st2: "step impl cl (Ev_request req') s1 = Some s2"
    using step_request_options [OF p1 assms(5), of impl cl] by (simp add: s2_def a2_def)
  have p2: "status s2 = Running" "length (renders s) < length (renders s2)" "Analysis s2 = Some a2"
    "renders s2 ! length (renders s) = (''./static/data/go-callvis_export'', ''dot'')"
    "files s2 = files s"
    using assms(1) by (simp_all add: s2_def s1_def)
  obtain s3 where st3: "step impl cl (Ev_render (length (renders s)) ev) s2 = Some s3"
    and o3: "out s3 = out s2 @ fst r" "files s3 = fst (snd r)"
    using step_render [OF p2(1-3), of impl cl ev] p2(4,5)
    by (cases r; cases "snd (snd r)") (auto simp add: r_def)
  have "renders s1 = renders s @ [(''./static/data/go-callvis_export'', ''dot'')]"
    by (simp add: s1_def)
  then show ?thesis
    using st1 st2 st3 o3 p1(3) p2(3)
    unfolding Let_def a1_def [symmetric] a2_def [symmetric] r_def [symmetric]
    by blast
qed

text \<open>
  A trigger with focus \<open>lib\<close>, then an option exchange that sets the focus to \<open>app\<close>,
  then the run: the description written is the one for \<open>app\<close>.
\<close>

theorem render_uses_store_at_run_time_witness:
  "\<exists>s1 s2 s3.
     step store_impl cl_app (Ev_request (trigger [(''focus'', ''lib'')])) serving = Some s1 \<and>
     Analysis s1 = Some [(''focus'', ''lib''), (''group'', ''pkg''), (''limit'', ''''),
                         (''ignore'', ''''), (''include'', ''''), (''nostd'', ''true''),
                         (''nointer'', ''true'')] \<and>
     step store_impl cl_app (Ev_request (put_options ''focus=app;'')) s1 = Some s2 \<and>
     Analysis s2 = Some [(''focus'', ''app''), (''group'', ''pkg''), (''limit'', ''''),
                         (''ignore'', ''''), (''include'', ''''), (''nostd'', ''true''),
                         (''nointer'', ''true'')] \<and>
     step store_impl cl_app (Ev_render 0 env_ok) s2 = Some s3 \<and>
     file_of ''./static/data/go-callvis_export.gv'' s3
       = Some ''focus=app;group=pkg;limit=;ignore=;include=;nostd=true;nointer=true;''"
  using render_uses_store_at_run_time
    [of serving _ "trigger [(''focus'', ''lib'')]" "put_options ''focus=app;''" store_impl
        env_ok cl_app]
  by (auto simp add: model_defs stub_defs file_of_def Let_def)

text \<open>
  C5 as stated fails: at the moment of the trigger the store has the focus \<open>lib\<close>, for
  which the description would name \<open>lib\<close>; an override merged before the run executes
  changes the focus to \<open>app\<close>, and the file the run writes names \<open>app\<close>.
\<close>

theorem snapshot_counterexample:
  "map_option Analysis
     (run store_impl cl_app (startup @ [Ev_request (trigger [(''focus'', ''lib'')])]) init)
     = Some (Some [(''focus'', ''lib''), (''group'', ''pkg''), (''limit'', ''''),
                   (''ignore'', ''''), (''include'', ''''), (''nostd'', ''true''),
                   (''nointer'', ''true'')]) \<and>
   Render store_impl [(''focus'', ''lib''), (''group'', ''pkg''), (''limit'', ''''),
                      (''ignore'', ''''), (''include'', ''''), (''nostd'', ''true''),
                      (''nointer'', ''true'')]
     = Inr (''focus=lib;group=pkg;limit=;ignore=;include=;nostd=true;nointer=true;'',
            [(''focus'', ''lib''), (''group'', ''pkg''), (''limit'', ''''),
             (''ignore'', ''''), (''include'', ''''), (''nostd'', ''true''),
             (''nointer'', ''true'')]) \<and>
   map_option (file_of ''./static/data/go-callvis_export.gv'')
     (run store_impl cl_app
        (startup @ [Ev_request (trigger [(''focus'', ''lib'')]),
                    Ev_request (put_options ''focus=app;''), Ev_render 0 env_ok]) init)
     = Some (Some ''focus=app;group=pkg;limit=;ignore=;include=;nostd=true;nointer=true;'')"
  by (simp add: model_defs stub_defs file_of_def)

subsection \<open>The option exchange\<close>

text \<open>
  C6. An option-exchange request with a non-empty \<open>opts\<close> value has that value merged
  into the store by \<open>UpdateOptUnMarshal\<close>; without one the store is unchanged. In both
  cases the response has status 200 and its body is \<open>GetOptMarshal\<close> of the store as
  the request leaves it, so a merge comes before the response.
\<close>

theorem option_exchange:
  assumes "status s = Running" "server s = Server_listening" "Analysis s = Some a"
    and "route_of req = Route_options"
  shows "\<exists>s'. step impl cl (Ev_request req) s = Some s' \<and>
           Analysis s' = Some (if FormValue req ''opts'' = [] then a
                              else UpdateOptUnMarshal impl (FormValue req ''opts'') a) \<and>
           responses s' = responses s @
             [String_response 200
                (GetOptMarshal impl (if FormValue req ''opts'' = [] then a
                                     else UpdateOptUnMarshal impl (FormValue req ''opts'') a))] \<and>
           status s' = Running \<and> renders s' = renders s"
  using step_request_options [OF assms, of impl cl] assms(1)
  by (simp add: StatusOK_def)

text \<open>An option exchange with a payload, and one without.\<close>

theorem option_exchange_witness:
  "(\<exists>s'. step store_impl cl_app (Ev_request (put_options ''focus=lib;nostd=false;'')) serving = Some s' \<and>
      Analysis s' = Some [(''focus'', ''lib''), (''group'', ''pkg''), (''limit'', ''''),
                          (''ignore'', ''''), (''include'', ''''), (''nostd'', ''false''),
                          (''nointer'', ''true'')] \<and>
      responses s' = [String_response 200
        ''focus=lib;group=pkg;limit=;ignore=;include=;nostd=false;nointer=true;'']) \<and>
   (\<exists>s'. step store_impl cl_app (Ev_request get_options) serving = Some s' \<and>
      Analysis s' = Analysis serving \<and>
      responses s' = [String_response 200
        ''focus=main;group=pkg;limit=;ignore=;include=;nostd=true;nointer=true;''])"
  using option_exchange [of serving _ "put_options ''focus=lib;nostd=false;''" store_impl cl_app]
    option_exchange [of serving _ get_options store_impl cl_app]
  by (simp add: model_defs stub_defs)

subsection \<open>The number of arguments\<close>

text \<open>
  While \<open>main\<close> has not passed the check of the arguments, \<open>Analysis\<close> is nil, no run
  of the pipeline was started, and nothing was printed or written.
\<close>

lemma step_keeps_early:
  assumes "step impl cl e s = Some s'" "status s' = Running" "pc s' = M_start \<or> pc s' = M_parse"
  shows "(pc s = M_start \<or> pc s = M_parse) \<and>
         (Analysis s = None \<and> renders s = [] \<and> out s = [] \<and> files s = Map.empty \<longrightarrow>
          Analysis s' = None \<and> renders s' = [] \<and> out s' = [] \<and> files s' = Map.empty)"
proof (cases e)
  case (Ev_main ev)
  then show ?thesis using assms
    by (auto simp add: step_def main_step_def Let_def
        split: if_splits main_pc.splits option.splits sum.splits prod.splits)
next
  case (Ev_listen ok)
  then show ?thesis using assms by (auto simp add: step_def split: if_splits)
next
  case (Ev_request req)
  then show ?thesis using assms
    by (auto simp add: step_def request_step_def
        split: if_splits route.splits option.splits prod.splits)
next
  case (Ev_render i ev)
  then show ?thesis using assms
    by (auto simp add: step_def render_step_def split: if_splits option.splits prod.splits)
next
  case (Ev_tick d)
  then show ?thesis using assms by (auto simp add: step_def split: if_splits)
qed

lemma early_nothing_ran:
  "run impl cl es init = Some s \<Longrightarrow> status s = Running \<Longrightarrow> pc s = M_start \<or> pc s = M_parse \<Longrightarrow>
     Analysis s = None \<and> renders s = [] \<and> out s = [] \<and> files s = Map.empty"
proof (induction es arbitrary: s rule: rev_induct)
  case Nil
  then show ?case by (auto simp add: init_def)
next
  case (snoc e es)
  from snoc.prems(1) obtain s0 where s0: "run impl cl es init = Some s0"
    and st: "step impl cl e s0 = Some s"
    by (auto simp add: run_snoc split: option.splits)
  have r0: "status s0 = Running"
    using st step_exited [of s0 impl cl e] by auto
  from step_keeps_early [OF st snoc.prems(2,3)] snoc.IH [OF s0 r0]
  show ?case by blast
qed

text \<open>
  An exit of the flag package is the exit of the process, with status 0 or 2; \<open>main\<close>
  does not reach its own checks.
\<close>

lemma flag_parse_exit_status:
  "flag_parse_from f gs = (fl, Some (code, l)) \<Longrightarrow> code = 0 \<or> code = 2"
proof (induction gs arbitrary: f)
  case Nil
  then show ?case by simp
next
  case (Cons g gs)
  show ?case
  proof (cases "flag_error g")
    case None
    then show ?thesis using Cons by simp
  next
    case (Some x)
    then have "x = (code, l)" using Cons.prems by simp
    then show ?thesis using Some
      by (cases g rule: flag_error.cases) (auto split: if_splits)
  qed
qed

lemma step_main_flag_exit:
  assumes "status s = Running" "pc s = M_parse"
    and "flag_Parse (given cl) = (fl, Some (code, l))"
  shows "step impl cl (Ev_main ev) s =
           Some (s\<lparr>flagvars := fl, out := out s @ l, status := Exited code\<rparr>)"
  using assms by (simp add: step_def main_step_def)

text \<open>
  C7, as amended. When the flag package accepts the command line (\<open>flag.Parse\<close> takes
  no exit: there is no \<open>-h\<close> or \<open>-help\<close> and no argument or value it rejects),
  \<open>-version\<close> is not given and the number of positional arguments is not one, \<open>main\<close>
  prints the usage text and the flag defaults and the process exits with status 2. In
  every run of the process up to that point (\<open>run\<close> from \<open>init\<close>)
  nothing else was printed, \<open>Analysis\<close> was never set, no run of the pipeline was
  started and no file written.
\<close>

theorem wrong_argument_count_exits_2:
  assumes "run impl cl es init = Some s" "status s = Running" "pc s = M_parse"
    and "flag_Parse (given cl) = (fl, None)" "\<not> versionFlag fl"
    and "length (positional cl) \<noteq> 1"
  shows "\<exists>s'. step impl cl (Ev_main ev) s = Some s' \<and> status s' = Exited 2 \<and>
           out s' = [Stderr Usage, PrintDefaults] \<and> Analysis s' = None \<and>
           files s' = Map.empty \<and> renders s' = [] \<and> (\<forall>e. step impl cl e s' = None)"
proof -
  have inv: "Analysis s = None \<and> renders s = [] \<and> out s = [] \<and> files s = Map.empty"
    using early_nothing_ran [OF assms(1,2)] assms(3) by simp
  let ?s' = "s\<lparr>flagvars := fl, log_microseconds := (debugFlag fl \<or> log_microseconds s),
               out := out s @ [Stderr Usage, PrintDefaults], status := Exited 2\<rparr>"
  have "step impl cl (Ev_main ev) s = Some ?s'"
    using assms(2-6) by (simp add: step_def main_step_def)
  then show ?thesis
    using inv by (simp add: step_exited)
qed

text \<open>A command line with a flag and no package.\<close>

theorem wrong_argument_count_exits_2_witness:
  "\<exists>s'. step store_impl \<lparr>given = [Set_focus ''lib''], positional = []\<rparr> (Ev_main env_ok)
           (init\<lparr>server := Server_starting, pc := M_parse\<rparr>) = Some s' \<and>
     status s' = Exited 2 \<and> out s' = [Stderr Usage, PrintDefaults] \<and> Analysis s' = None \<and>
     renders s' = []"
  using wrong_argument_count_exits_2
    [of store_impl "\<lparr>given = [Set_focus ''lib''], positional = []\<rparr>" "[Ev_main env_ok]"
        "init\<lparr>server := Server_starting, pc := M_parse\<rparr>" _ env_ok]
  by (auto simp add: step_def main_step_def init_def flag_Parse_def flag_defaults_def)

text \<open>
  C7 as stated fails. With \<open>-version\<close> and no positional argument the process prints
  the version, not the usage text, and exits with status 0. With \<open>-h\<close> and no
  positional argument the process ends inside \<open>flag.Parse\<close>, with the usage of the flag
  package and status 0.
\<close>

theorem wrong_argument_count_counterexample:
  "length (positional cl_version) \<noteq> 1 \<and>
   map_option status (run store_impl cl_version [Ev_main env_ok, Ev_main env_ok] init)
     = Some (Exited 0) \<and>
   map_option out (run store_impl cl_version [Ev_main env_ok, Ev_main env_ok] init)
     = Some [Stderr (''dev'' @ nl)] \<and>
   length (positional cl_help) \<noteq> 1 \<and>
   map_option status (run store_impl cl_help [Ev_main env_ok, Ev_main env_ok] init)
     = Some (Exited 0) \<and>
   map_option out (run store_impl cl_help [Ev_main env_ok, Ev_main env_ok] init)
     = Some [FlagUsageOf, PrintDefaults]"
  by (simp add: model_defs stub_defs cl_version_def cl_help_def)

subsection \<open>A failing stage of the startup run\<close>

lemma step_main_output_fatal:
  assumes "status s = Running" "pc s = M_output" "Analysis s = Some a"
    and "stage_fails impl ev ''./static/data/go-callvis_export'' ''dot'' a"
  shows "exits_with impl cl (Ev_main ev) s 1"
proof -
  let ?r = "outputDot impl ev ''./static/data/go-callvis_export'' ''dot'' (files s) a"
  have "snd (snd ?r) = None"
    using assms(4) by (simp add: outputDot_fatal_iff)
  then show ?thesis
    using step_main_output [OF assms(1-3), of impl cl ev]
    by (cases ?r) (simp add: exits_with_def)
qed

text \<open>
  C8. On the goroutine of \<open>main\<close>, an error of any stage ends the process with exit
  status 1: of \<open>DoAnalysis\<close>, of \<open>ProcessListArgs\<close>, of \<open>Render\<close>, of writing the
  description file, of converting it to an image. A process that has exited takes no
  further step.
\<close>

theorem batch_failure_is_fatal:
  assumes "status s = Running" "Analysis s = Some a"
  shows "(pc s = M_analysis args tests \<and> DoAnalysis impl ''./'' tests args a = Inl e \<longrightarrow>
            exits_with impl cl (Ev_main ev) s 1) \<and>
         (pc s = M_output \<and> ProcessListArgs impl a = Inl e \<longrightarrow>
            exits_with impl cl (Ev_main ev) s 1) \<and>
         (pc s = M_output \<and> ProcessListArgs impl a = Inr a1 \<and> Render impl a1 = Inl e \<longrightarrow>
            exits_with impl cl (Ev_main ev) s 1) \<and>
         (pc s = M_output \<and> ProcessListArgs impl a = Inr a1 \<and> Render impl a1 = Inr (d, a2) \<and>
          WriteFile_error ev ''./static/data/go-callvis_export.gv'' = Some e \<longrightarrow>
            exits_with impl cl (Ev_main ev) s 1) \<and>
         (pc s = M_output \<and> ProcessListArgs impl a = Inr a1 \<and> Render impl a1 = Inr (d, a2) \<and>
          WriteFile_error ev ''./static/data/go-callvis_export.gv'' = None \<and>
          dotToImage ev ''./static/data/go-callvis_export'' ''dot'' d = Inl e \<longrightarrow>
            exits_with impl cl (Ev_main ev) s 1) \<and>
         (\<forall>s' e'. status s' = Exited 1 \<longrightarrow> step impl cl e' s' = None)"
proof -
  have A: "exits_with impl cl (Ev_main ev) s 1"
    if "pc s = M_analysis args tests" "DoAnalysis impl ''./'' tests args a = Inl e"
    using step_main_analysis [OF assms(1) that(1) assms(2), of impl cl ev] that(2)
    by (simp add: exits_with_def)
  have B: "exits_with impl cl (Ev_main ev) s 1"
    if "pc s = M_output" "stage_fails impl ev ''./static/data/go-callvis_export'' ''dot'' a"
    using step_main_output_fatal [OF assms(1) that(1) assms(2) that(2)] .
  have F: "\<forall>s' e'. status s' = Exited 1 \<longrightarrow> step impl cl e' s' = None"
    by (simp add: step_exited)
  show ?thesis
    using A B F
    stage_fails_iff [of impl ev "''./static/data/go-callvis_export''" "''dot''" a]
    by simp
qed

text \<open>One failing stage at a time.\<close>

theorem batch_failure_is_fatal_witness:
  "exits_with (store_impl\<lparr>DoAnalysis := (\<lambda>dir tests args a. Inl ''AnalysisUnavailable'')\<rparr>)
     cl_app (Ev_main env_ok) analysing 1 \<and>
   exits_with (store_impl\<lparr>ProcessListArgs := (\<lambda>a. Inl ''invalid parameters'')\<rparr>)
     cl_app (Ev_main env_ok) (analysing\<lparr>pc := M_output\<rparr>) 1 \<and>
   exits_with (store_impl\<lparr>Render := (\<lambda>a. Inl ''FocusNotFound'')\<rparr>)
     cl_app (Ev_main env_ok) (analysing\<lparr>pc := M_output\<rparr>) 1 \<and>
   exits_with store_impl cl_app
     (Ev_main (env_ok\<lparr>WriteFile_error := (\<lambda>p. Some ''permission denied'')\<rparr>))
     (analysing\<lparr>pc := M_output\<rparr>) 1 \<and>
   exits_with store_impl cl_app (Ev_main env_no_engine) (analysing\<lparr>pc := M_output\<rparr>) 1 \<and>
   step store_impl cl_app (Ev_request get_options) (analysing\<lparr>status := Exited 1\<rparr>) = None"
  using batch_failure_is_fatal
      [of analysing _ "[''./cmd/app'']" False
          "store_impl\<lparr>DoAnalysis := (\<lambda>dir tests args a. Inl ''AnalysisUnavailable'')\<rparr>"
          _ cl_app env_ok]
    batch_failure_is_fatal
      [of "analysing\<lparr>pc := M_output\<rparr>" _ _ _
          "store_impl\<lparr>ProcessListArgs := (\<lambda>a. Inl ''invalid parameters'')\<rparr>" _ cl_app env_ok]
    batch_failure_is_fatal
      [of "analysing\<lparr>pc := M_output\<rparr>" _ _ _
          "store_impl\<lparr>Render := (\<lambda>a. Inl ''FocusNotFound'')\<rparr>" _ cl_app env_ok]
    batch_failure_is_fatal
      [of "analysing\<lparr>pc := M_output\<rparr>" _ _ _ store_impl _ cl_app
          "env_ok\<lparr>WriteFile_error := (\<lambda>p. Some ''permission denied'')\<rparr>"]
    batch_failure_is_fatal
      [of "analysing\<lparr>pc := M_output\<rparr>" _ _ _ store_impl _ cl_app env_no_engine]
  by (simp add: analysing_def store_impl_def env_ok_def env_no_engine_def)

subsection \<open>The defaults of the flags\<close>

text \<open>
  C9. With no flag on the command line \<open>flag.Parse\<close> takes no exit and the values are
  the declared defaults: focus
  \<open>main\<close>, group \<open>pkg\<close>, nostd and nointer on, tests off, format \<open>svg\<close>, minlen 2,
  nodesep 0.35, nodeshape \<open>box\<close>, nodestyle \<open>filled,rounded\<close>, rankdir \<open>LR\<close>.
\<close>

theorem flag_defaults_without_flags:
  "snd (flag_Parse []) = None \<and>
   focusFlag (fst (flag_Parse [])) = ''main'' \<and>
   groupFlag (fst (flag_Parse [])) = ''pkg'' \<and>
   nostdFlag (fst (flag_Parse [])) = True \<and>
   nointerFlag (fst (flag_Parse [])) = True \<and>
   testFlag (fst (flag_Parse [])) = False \<and>
   outputFormat (fst (flag_Parse [])) = ''svg'' \<and>
   minlen (fst (flag_Parse [])) = 2 \<and>
   nodesep (fst (flag_Parse [])) = Finite (35, 2) \<and>
   nodeshape (fst (flag_Parse [])) = ''box'' \<and>
   nodestyle (fst (flag_Parse [])) = ''filled,rounded'' \<and>
   rankdir (fst (flag_Parse [])) = ''LR''"
  by (simp add: flag_Parse_def flag_defaults_def)

subsection \<open>After a successful startup run\<close>

text \<open>
  C10. After a startup run whose stages all succeed the process does not exit: \<open>main\<close>
  sleeps for one hour (3600 * 10^9 nanoseconds), the server is as it was, and a server
  that listens goes on serving requests. \<open>main\<close> takes no step before the hour has
  passed; when it has, \<open>main\<close> returns and the process exits with status 0.
\<close>

theorem batch_success_sleeps:
  assumes "status s = Running" "pc s = M_output" "Analysis s = Some a"
    and "\<not> stage_fails impl ev ''./static/data/go-callvis_export'' ''dot'' a"
  shows "\<exists>s'. step impl cl (Ev_main ev) s = Some s' \<and> status s' = Running \<and>
           pc s' = M_sleep (clock s + 3600 * 1000000000) \<and> server s' = server s \<and>
           clock s' = clock s \<and>
           (\<forall>d ev'. d < 3600 * 1000000000 \<longrightarrow>
              step impl cl (Ev_main ev') (s'\<lparr>clock := clock s + d\<rparr>) = None) \<and>
           (\<forall>d ev'. 3600 * 1000000000 \<le> d \<longrightarrow>
              exits_with impl cl (Ev_main ev') (s'\<lparr>clock := clock s + d\<rparr>) 0) \<and>
           (\<forall>req. server s = Server_listening \<longrightarrow>
              (\<exists>s''. step impl cl (Ev_request req) s' = Some s'' \<and> status s'' = Running \<and>
                     server s'' = Server_listening \<and> pc s'' = pc s'))"
proof -
  let ?r = "outputDot impl ev ''./static/data/go-callvis_export'' ''dot'' (files s) a"
  obtain l fs r where r: "?r = (l, fs, r)"
    by (cases ?r) auto
  have "r \<noteq> None"
    using outputDot_fatal_iff
      [of impl ev "''./static/data/go-callvis_export''" "''dot''" "files s" a] r assms(4)
    by simp
  then obtain a' where a': "r = Some a'" by auto
  let ?s' = "s\<lparr>out := out s @ l, files := fs, Analysis := Some a',
               pc := M_sleep (clock s + Hour)\<rparr>"
  have st: "step impl cl (Ev_main ev) s = Some ?s'"
    using step_main_output [OF assms(1-3), of impl cl ev] r a' by simp
  have sleep: "step impl cl (Ev_main ev') (?s'\<lparr>clock := clock s + d\<rparr>) = None"
    if "d < Hour" for d ev'
    using that assms(1) by (simp add: step_def main_step_def)
  have wake: "exits_with impl cl (Ev_main ev') (?s'\<lparr>clock := clock s + d\<rparr>) 0"
    if "Hour \<le> d" for d ev'
    using that assms(1) by (simp add: exits_with_def step_def main_step_def)
  have serve: "\<exists>s''. step impl cl (Ev_request req) ?s' = Some s'' \<and> status s'' = Running \<and>
                     server s'' = Server_listening \<and> pc s'' = pc ?s'"
    if "server s = Server_listening" for req
    using step_request_served [of ?s' a' impl cl req] that assms(1) by auto
  show ?thesis
    using st sleep wake serve assms(1) by (simp add: Hour_def)
qed

text \<open>A successful startup run, one nanosecond before the hour has passed, and the hour.\<close>

theorem batch_success_sleeps_witness:
  "\<exists>s'. step store_impl cl_app (Ev_main env_ok) (analysing\<lparr>pc := M_output\<rparr>) = Some s' \<and>
     status s' = Running \<and> pc s' = M_sleep (0 + 3600 * 1000000000) \<and>
     server s' = Server_listening \<and>
     step store_impl cl_app (Ev_main env_ok) (s'\<lparr>clock := 0 + 3599999999999\<rparr>) = None \<and>
     exits_with store_impl cl_app (Ev_main env_ok) (s'\<lparr>clock := 0 + 3600000000000\<rparr>) 0 \<and>
     (\<exists>s''. step store_impl cl_app (Ev_request (trigger [])) s' = Some s'' \<and>
            status s'' = Running \<and> server s'' = Server_listening \<and> pc s'' = pc s')"
proof -
  have h: "status (analysing\<lparr>pc := M_output\<rparr>) = Running"
    "pc (analysing\<lparr>pc := M_output\<rparr>) = M_output"
    "Analysis (analysing\<lparr>pc := M_output\<rparr>) = Some
         [(''focus'', ''main''), (''group'', ''pkg''), (''limit'', ''''), (''ignore'', ''''),
          (''include'', ''''), (''nostd'', ''true''), (''nointer'', ''true'')]"
    "\<not> stage_fails store_impl env_ok ''./static/data/go-callvis_export'' ''dot''
         [(''focus'', ''main''), (''group'', ''pkg''), (''limit'', ''''), (''ignore'', ''''),
          (''include'', ''''), (''nostd'', ''true''), (''nointer'', ''true'')]"
    "server (analysing\<lparr>pc := M_output\<rparr>) = Server_listening"
    "clock (analysing\<lparr>pc := M_output\<rparr>) = 0"
    by (simp_all add: analysing_def stage_fails_def store_impl_def env_ok_def)
  from batch_success_sleeps [OF h(1-4), of cl_app]
  obtain s' where s': "step store_impl cl_app (Ev_main env_ok) (analysing\<lparr>pc := M_output\<rparr>) = Some s'"
    "status s' = Running"
    "pc s' = M_sleep (clock (analysing\<lparr>pc := M_output\<rparr>) + 3600 * 1000000000)"
    "server s' = server (analysing\<lparr>pc := M_output\<rparr>)"
    "\<forall>d ev'. d < 3600 * 1000000000 \<longrightarrow>
       step store_impl cl_app (Ev_main ev') (s'\<lparr>clock := clock (analysing\<lparr>pc := M_output\<rparr>) + d\<rparr>) = None"
    "\<forall>d ev'. 3600 * 1000000000 \<le> d \<longrightarrow>
       exits_with store_impl cl_app (Ev_main ev') (s'\<lparr>clock := clock (analysing\<lparr>pc := M_output\<rparr>) + d\<rparr>) 0"
    "\<forall>req. server (analysing\<lparr>pc := M_output\<rparr>) = Server_listening \<longrightarrow>
       (\<exists>s''. step store_impl cl_app (Ev_request req) s' = Some s'' \<and> status s'' = Running \<and>
              server s'' = Server_listening \<and> pc s'' = pc s')"
    by blast
  have a: "step store_impl cl_app (Ev_main env_ok) (s'\<lparr>clock := 0 + 3599999999999\<rparr>) = None"
    using s'(5) h(6) by simp
  have b: "exits_with store_impl cl_app (Ev_main env_ok) (s'\<lparr>clock := 0 + 3600000000000\<rparr>) 0"
    using s'(6) h(6) by simp
  have c: "\<exists>s''. step store_impl cl_app (Ev_request (trigger [])) s' = Some s'' \<and>
            status s'' = Running \<and> server s'' = Server_listening \<and> pc s'' = pc s'"
    using s'(7) h(5) by blast
  show ?thesis
    using s'(1-4) a b c h(5,6) by auto
qed

end
